theory Spec2Isabelle
  imports Main
begin

section \<open>The Loki query-builder options panel\<close>

text \<open>
  A shallow embedding of
  \<^verbatim>\<open>public/app/plugins/datasource/loki/querybuilder/components/LokiQueryBuilderOptions.tsx\<close>:
  the field-edit handlers of the panel, the resolution of the query type, and the pure helper
  \<^verbatim>\<open>getCollapsedInfo\<close> that derives the summary shown when the panel is collapsed.
\<close>

subsection \<open>Data\<close>

text \<open>
  Modelled from the spec: the enum \<^verbatim>\<open>LokiQueryType\<close> is declared in \<^verbatim>\<open>../../types\<close>,
  which is not among the sources. The panel names two members, \<^verbatim>\<open>LokiQueryType.Range\<close> and
  \<^verbatim>\<open>LokiQueryType.Instant\<close>; the constructors carry a suffix because \<open>Range\<close> is a
  constant of HOL.
\<close>

datatype LokiQueryType = Range_type | Instant_type

text \<open>
  Modelled from the spec: the interface \<^verbatim>\<open>LokiQuery\<close> is declared in \<^verbatim>\<open>../../types\<close>. The
  record has the fields that the panel reads or replaces; each is optional in the source
  (\<^verbatim>\<open>undefined\<close> is \<open>None\<close>). Numbers are integers, as the spec's data model has them.
  Every field of the query that the panel never names is kept in \<open>otherFields\<close>.
\<close>

record 'r LokiQuery =
  legendFormat :: "string option"
  queryType :: "LokiQueryType option"
  instant :: "bool option"
  maxLines :: "int option"
  step :: "string option"
  resolution :: "int option"
  splitDuration :: "string option"
  otherFields :: 'r

text \<open>
  An entry of an option catalog, \<^verbatim>\<open>SelectableValue<T>\<close> of \<^verbatim>\<open>@grafana/data\<close>: the fields
  \<^verbatim>\<open>value?: T\<close> and \<^verbatim>\<open>label?: string\<close>, both optional.
\<close>

record 'a SelectableValue =
  sv_value :: "'a option"
  sv_label :: "string option"

subsection \<open>JavaScript values\<close>

text \<open>Truthiness of an optional string: \<^verbatim>\<open>undefined\<close> and the empty string are falsy.\<close>

definition truthy_string :: "string option \<Rightarrow> bool" where
  "truthy_string s = (case s of None \<Rightarrow> False | Some t \<Rightarrow> t \<noteq> [])"

text \<open>Truthiness of an optional number: \<^verbatim>\<open>undefined\<close> and \<open>0\<close> are falsy.\<close>

definition truthy_number :: "int option \<Rightarrow> bool" where
  "truthy_number n = (case n of None \<Rightarrow> False | Some k \<Rightarrow> k \<noteq> 0)"

text \<open>Truthiness of an optional boolean.\<close>

definition truthy_bool :: "bool option \<Rightarrow> bool" where
  "truthy_bool b = (case b of None \<Rightarrow> False | Some c \<Rightarrow> c)"

text \<open>The nullish coalescing operator \<^verbatim>\<open>a ?? b\<close>.\<close>

definition nullish :: "'a option \<Rightarrow> 'a \<Rightarrow> 'a" where
  "nullish a b = (case a of None \<Rightarrow> b | Some v \<Rightarrow> v)"

text \<open>Interpolation of a string or \<^verbatim>\<open>undefined\<close> in a template literal.\<close>

definition template_string :: "string option \<Rightarrow> string" where
  "template_string s = (case s of None \<Rightarrow> ''undefined'' | Some t \<Rightarrow> t)"

text \<open>Interpolation of an integer in a template literal: its decimal digits, with a sign.\<close>

fun digits :: "nat \<Rightarrow> string" where
  "digits n =
     (if n < 10 then [''0123456789'' ! n]
      else digits (n div 10) @ [''0123456789'' ! (n mod 10)])"

declare digits.simps [simp del]

definition template_number :: "int \<Rightarrow> string" where
  "template_number i = (if i < 0 then ''-'' @ digits (nat (- i)) else digits (nat i))"

text \<open>The optional chaining \<^verbatim>\<open>x?.label\<close> on the result of \<^verbatim>\<open>Array.find\<close>.\<close>

definition label_of :: "'a SelectableValue option \<Rightarrow> string option" where
  "label_of x = (case x of None \<Rightarrow> None | Some e \<Rightarrow> sv_label e)"

subsection \<open>Resolution of the query type\<close>

text \<open>
  \<^verbatim>\<open>const queryType = query.queryType ?? (query.instant ? LokiQueryType.Instant : LokiQueryType.Range);\<close>
\<close>

definition resolvedQueryType :: "'r LokiQuery \<Rightarrow> LokiQueryType" where
  "resolvedQueryType query =
     nullish (queryType query) (if truthy_bool (instant query) then Instant_type else Range_type)"

subsection \<open>The summary of the collapsed panel\<close>

definition push :: "'a list \<Rightarrow> 'a \<Rightarrow> 'a list" where
  "push items x = items @ [x]"

text \<open>
  \<^verbatim>\<open>getCollapsedInfo(query, queryType, maxLines, isLogQuery)\<close>. The two catalogs
  \<^verbatim>\<open>queryTypeOptions\<close> and \<^verbatim>\<open>RESOLUTION_OPTIONS\<close> are imported from
  \<^verbatim>\<open>../../components/LokiOptionFields\<close>, which is not among the sources: they are parameters.
  The array \<^verbatim>\<open>items\<close> is threaded through the statements of the body in their order.
\<close>

definition getCollapsedInfo ::
  "LokiQueryType SelectableValue list \<Rightarrow> int SelectableValue list \<Rightarrow>
   'r LokiQuery \<Rightarrow> LokiQueryType \<Rightarrow> int \<Rightarrow> bool \<Rightarrow> string list" where
  "getCollapsedInfo queryTypeOptions RESOLUTION_OPTIONS query qType maxLinesProp isLogQuery =
     (let queryTypeLabel = find (\<lambda>x. sv_value x = Some qType) queryTypeOptions;
          resolutionLabel =
            find (\<lambda>x. sv_value x = Some (nullish (resolution query) 1)) RESOLUTION_OPTIONS;
          items0 = [];
          items1 =
            (if truthy_string (legendFormat query)
             then push items0 (''Legend: '' @ template_string (legendFormat query))
             else items0);
          items2 =
            (if truthy_number (resolution query)
             then push items1 (''Resolution: '' @ template_string (label_of resolutionLabel))
             else items1);
          items3 = push items2 (''Type: '' @ template_string (label_of queryTypeLabel));
          items4 =
            (if isLogQuery
             then push items3
                    (''Line limit: '' @ template_number (nullish (maxLines query) maxLinesProp))
             else items3);
          items5 =
            (if \<not> isLogQuery
             then
               (let items4a =
                      (if truthy_string (step query)
                       then push items4 (''Step: '' @ template_string (step query))
                       else items4)
                in if truthy_number (resolution query)
                   then push items4a
                          (''Resolution: '' @ template_string (label_of resolutionLabel))
                   else items4a)
             else items4)
      in items5)"

subsection \<open>The handlers of the panel\<close>

text \<open>
  What a handler does beyond returning: it calls \<^verbatim>\<open>reportInteraction\<close> (with the event name
  and the two fields \<^verbatim>\<open>app\<close>, \<^verbatim>\<open>resolution\<close> of its payload), the caller's \<^verbatim>\<open>onChange\<close>
  and the caller's \<^verbatim>\<open>onRunQuery\<close>. The calls are recorded in the order they are made.
  \<^verbatim>\<open>CoreApp\<close> is the type variable \<open>'app\<close>.
\<close>

datatype ('app, 'r) call =
    ReportInteraction string "'app option" "int option"
  | OnChange "'r LokiQuery"
  | OnRunQuery

text \<open>
  The state a handler acts on: the panel's own \<^verbatim>\<open>useState\<close> flag \<^verbatim>\<open>splitDurationValid\<close>
  (initially true) and the calls made so far.
\<close>

record ('app, 'r) PanelState =
  splitDurationValid :: bool
  calls :: "('app, 'r) call list"

definition initialState :: "('app, 'r) PanelState" where
  "initialState = \<lparr>splitDurationValid = True, calls = []\<rparr>"

definition reportInteraction ::
  "string \<Rightarrow> 'app option \<Rightarrow> int option \<Rightarrow> ('app, 'r) PanelState \<Rightarrow> ('app, 'r) PanelState" where
  "reportInteraction name app res st = st\<lparr>calls := calls st @ [ReportInteraction name app res]\<rparr>"

definition onChange :: "'r LokiQuery \<Rightarrow> ('app, 'r) PanelState \<Rightarrow> ('app, 'r) PanelState" where
  "onChange update st = st\<lparr>calls := calls st @ [OnChange update]\<rparr>"

definition onRunQuery :: "('app, 'r) PanelState \<Rightarrow> ('app, 'r) PanelState" where
  "onRunQuery st = st\<lparr>calls := calls st @ [OnRunQuery]\<rparr>"

definition setSplitDurationValid :: "bool \<Rightarrow> ('app, 'r) PanelState \<Rightarrow> ('app, 'r) PanelState" where
  "setSplitDurationValid b st = st\<lparr>splitDurationValid := b\<rparr>"

text \<open>
  Each handler closes over the props \<^verbatim>\<open>query\<close> and \<^verbatim>\<open>app\<close> of the render it belongs to;
  here they are arguments. An input event is the string \<^verbatim>\<open>evt.currentTarget.value\<close>.
\<close>

definition onQueryTypeChange ::
  "'r LokiQuery \<Rightarrow> LokiQueryType \<Rightarrow> ('app, 'r) PanelState \<Rightarrow> ('app, 'r) PanelState" where
  "onQueryTypeChange query v st =
     (let st1 = onChange (query\<lparr>queryType := Some v\<rparr>) st
      in onRunQuery st1)"

definition onResolutionChange ::
  "'app option \<Rightarrow> 'r LokiQuery \<Rightarrow> int SelectableValue \<Rightarrow>
   ('app, 'r) PanelState \<Rightarrow> ('app, 'r) PanelState" where
  "onResolutionChange app query option st =
     (let st1 = reportInteraction ''grafana_loki_resolution_clicked'' app (sv_value option) st;
          st2 = onChange (query\<lparr>resolution := sv_value option\<rparr>) st1
      in onRunQuery st2)"

text \<open>\<^verbatim>\<open>isValidDuration\<close> is imported from \<^verbatim>\<open>@grafana/data\<close>: a parameter.\<close>

definition onChunkRangeChange ::
  "(string \<Rightarrow> bool) \<Rightarrow> 'r LokiQuery \<Rightarrow> string \<Rightarrow>
   ('app, 'r) PanelState \<Rightarrow> ('app, 'r) PanelState" where
  "onChunkRangeChange isValidDuration query v st =
     (if \<not> isValidDuration v then setSplitDurationValid False st
      else
        (let st1 = setSplitDurationValid True st;
             st2 = onChange (query\<lparr>splitDuration := Some v\<rparr>) st1
         in onRunQuery st2))"

definition onLegendFormatChanged ::
  "'r LokiQuery \<Rightarrow> string \<Rightarrow> ('app, 'r) PanelState \<Rightarrow> ('app, 'r) PanelState" where
  "onLegendFormatChanged query v st =
     (let st1 = onChange (query\<lparr>legendFormat := Some v\<rparr>) st
      in onRunQuery st1)"

text \<open>
  \<^verbatim>\<open>preprocessMaxLines\<close> is imported from \<^verbatim>\<open>../../components/LokiOptionFields\<close>: a parameter,
  of the source's type \<^verbatim>\<open>(value: string) => number | undefined\<close>.
\<close>

definition onMaxLinesChange ::
  "(string \<Rightarrow> int option) \<Rightarrow> 'r LokiQuery \<Rightarrow> string \<Rightarrow>
   ('app, 'r) PanelState \<Rightarrow> ('app, 'r) PanelState" where
  "onMaxLinesChange preprocessMaxLines query v st =
     (let newMaxLines = preprocessMaxLines v
      in if maxLines query \<noteq> newMaxLines
         then
           (let st1 = onChange (query\<lparr>maxLines := newMaxLines\<rparr>) st
            in onRunQuery st1)
         else st)"

text \<open>\<^verbatim>\<open>trim\<close> is imported from \<^verbatim>\<open>lodash\<close>: a parameter.\<close>

definition onStepChange ::
  "(string \<Rightarrow> string) \<Rightarrow> 'r LokiQuery \<Rightarrow> string \<Rightarrow>
   ('app, 'r) PanelState \<Rightarrow> ('app, 'r) PanelState" where
  "onStepChange trim query v st =
     (let st1 = onChange (query\<lparr>step := Some (trim v)\<rparr>) st
      in onRunQuery st1)"

subsection \<open>The handlers on a store of objects\<close>

text \<open>
  In the source a query is an object and the prop \<^verbatim>\<open>query\<close> is a reference to it, so a
  handler could assign to its fields. To state what the handlers do to that object, they are
  written once more over a store: the list of the objects allocated so far, a reference
  being an index into it. The references handed to \<^verbatim>\<open>onChange\<close> are recorded, and the
  panel's flag and calls are kept as before, each \<^verbatim>\<open>onChange\<close> call with the fields that
  its argument has when the call is made.
\<close>

record ('app, 'r) ObjectState =
  objects :: "'r LokiQuery list"
  passedRefs :: "nat list"
  panel :: "('app, 'r) PanelState"

text \<open>
  The object literal \<^verbatim>\<open>{ ...query, field: value }\<close>: a new object is allocated at the end of
  the store, with the fields of the object at \<open>r\<close> and the one replacement; the object at
  \<open>r\<close> is read, not written.
\<close>

definition spread ::
  "'r LokiQuery list \<Rightarrow> nat \<Rightarrow> ('r LokiQuery \<Rightarrow> 'r LokiQuery) \<Rightarrow> 'r LokiQuery list \<times> nat" where
  "spread objs r replace = (objs @ [replace (objs ! r)], length objs)"

definition reportInteraction_ref ::
  "string \<Rightarrow> 'app option \<Rightarrow> int option \<Rightarrow>
   ('app, 'r) ObjectState \<Rightarrow> ('app, 'r) ObjectState" where
  "reportInteraction_ref name app res w = w\<lparr>panel := reportInteraction name app res (panel w)\<rparr>"

definition onChange_ref :: "nat \<Rightarrow> ('app, 'r) ObjectState \<Rightarrow> ('app, 'r) ObjectState" where
  "onChange_ref update w =
     w\<lparr>passedRefs := passedRefs w @ [update],
       panel := onChange (objects w ! update) (panel w)\<rparr>"

definition onRunQuery_ref :: "('app, 'r) ObjectState \<Rightarrow> ('app, 'r) ObjectState" where
  "onRunQuery_ref w = w\<lparr>panel := onRunQuery (panel w)\<rparr>"

definition setSplitDurationValid_ref ::
  "bool \<Rightarrow> ('app, 'r) ObjectState \<Rightarrow> ('app, 'r) ObjectState" where
  "setSplitDurationValid_ref b w = w\<lparr>panel := setSplitDurationValid b (panel w)\<rparr>"

definition onQueryTypeChange_ref ::
  "nat \<Rightarrow> LokiQueryType \<Rightarrow> ('app, 'r) ObjectState \<Rightarrow> ('app, 'r) ObjectState" where
  "onQueryTypeChange_ref query v w =
     (let (objs1, update) = spread (objects w) query (\<lambda>obj. obj\<lparr>queryType := Some v\<rparr>);
          w1 = onChange_ref update (w\<lparr>objects := objs1\<rparr>)
      in onRunQuery_ref w1)"

definition onResolutionChange_ref ::
  "'app option \<Rightarrow> nat \<Rightarrow> int SelectableValue \<Rightarrow>
   ('app, 'r) ObjectState \<Rightarrow> ('app, 'r) ObjectState" where
  "onResolutionChange_ref app query option w =
     (let w1 = reportInteraction_ref ''grafana_loki_resolution_clicked'' app (sv_value option) w;
          (objs2, update) =
            spread (objects w1) query (\<lambda>obj. obj\<lparr>resolution := sv_value option\<rparr>);
          w2 = onChange_ref update (w1\<lparr>objects := objs2\<rparr>)
      in onRunQuery_ref w2)"

definition onChunkRangeChange_ref ::
  "(string \<Rightarrow> bool) \<Rightarrow> nat \<Rightarrow> string \<Rightarrow>
   ('app, 'r) ObjectState \<Rightarrow> ('app, 'r) ObjectState" where
  "onChunkRangeChange_ref isValidDuration query v w =
     (if \<not> isValidDuration v then setSplitDurationValid_ref False w
      else
        (let w1 = setSplitDurationValid_ref True w;
             (objs2, update) =
               spread (objects w1) query (\<lambda>obj. obj\<lparr>splitDuration := Some v\<rparr>);
             w2 = onChange_ref update (w1\<lparr>objects := objs2\<rparr>)
         in onRunQuery_ref w2))"

definition onLegendFormatChanged_ref ::
  "nat \<Rightarrow> string \<Rightarrow> ('app, 'r) ObjectState \<Rightarrow> ('app, 'r) ObjectState" where
  "onLegendFormatChanged_ref query v w =
     (let (objs1, update) = spread (objects w) query (\<lambda>obj. obj\<lparr>legendFormat := Some v\<rparr>);
          w1 = onChange_ref update (w\<lparr>objects := objs1\<rparr>)
      in onRunQuery_ref w1)"

definition onMaxLinesChange_ref ::
  "(string \<Rightarrow> int option) \<Rightarrow> nat \<Rightarrow> string \<Rightarrow>
   ('app, 'r) ObjectState \<Rightarrow> ('app, 'r) ObjectState" where
  "onMaxLinesChange_ref preprocessMaxLines query v w =
     (let newMaxLines = preprocessMaxLines v
      in if maxLines (objects w ! query) \<noteq> newMaxLines
         then
           (let (objs1, update) =
                  spread (objects w) query (\<lambda>obj. obj\<lparr>maxLines := newMaxLines\<rparr>);
                w1 = onChange_ref update (w\<lparr>objects := objs1\<rparr>)
            in onRunQuery_ref w1)
         else w)"

definition onStepChange_ref ::
  "(string \<Rightarrow> string) \<Rightarrow> nat \<Rightarrow> string \<Rightarrow>
   ('app, 'r) ObjectState \<Rightarrow> ('app, 'r) ObjectState" where
  "onStepChange_ref trim query v w =
     (let (objs1, update) = spread (objects w) query (\<lambda>obj. obj\<lparr>step := Some (trim v)\<rparr>);
          w1 = onChange_ref update (w\<lparr>objects := objs1\<rparr>)
      in onRunQuery_ref w1)"

subsection \<open>Observations on a run of a handler\<close>

text \<open>The calls a handler made: those of the state it returns beyond those of the state it got.\<close>

definition callsMade ::
  "('app, 'r) PanelState \<Rightarrow> ('app, 'r) PanelState \<Rightarrow> ('app, 'r) call list" where
  "callsMade st st' = drop (length (calls st)) (calls st')"

text \<open>The query records handed to \<^verbatim>\<open>onChange\<close>, in order.\<close>

fun onChangeArgs :: "('app, 'r) call list \<Rightarrow> 'r LokiQuery list" where
  "onChangeArgs [] = []"
| "onChangeArgs (OnChange u # cs) = u # onChangeArgs cs"
| "onChangeArgs (c # cs) = onChangeArgs cs"

text \<open>
  The named fields of a query, and agreement of two queries on every field but one:
  \<open>agreeExcept f a b\<close> holds when \<open>b\<close> has the value of \<open>a\<close> in each field other than \<open>f\<close>,
  the fields the panel never names included.
\<close>

datatype queryField =
  F_legendFormat | F_queryType | F_instant | F_maxLines | F_step | F_resolution | F_splitDuration

definition agreeExcept :: "queryField \<Rightarrow> 'r LokiQuery \<Rightarrow> 'r LokiQuery \<Rightarrow> bool" where
  "agreeExcept f a b =
     ((f = F_legendFormat \<or> legendFormat b = legendFormat a) \<and>
      (f = F_queryType \<or> queryType b = queryType a) \<and>
      (f = F_instant \<or> instant b = instant a) \<and>
      (f = F_maxLines \<or> maxLines b = maxLines a) \<and>
      (f = F_step \<or> step b = step a) \<and>
      (f = F_resolution \<or> resolution b = resolution a) \<and>
      (f = F_splitDuration \<or> splitDuration b = splitDuration a) \<and>
      otherFields b = otherFields a)"

text \<open>The references a handler handed to \<^verbatim>\<open>onChange\<close>, in order.\<close>

definition passedSince :: "('app, 'r) ObjectState \<Rightarrow> ('app, 'r) ObjectState \<Rightarrow> nat list" where
  "passedSince w w' = drop (length (passedRefs w)) (passedRefs w')"

text \<open>
  A run from \<open>w\<close> to \<open>w'\<close> of a handler that edits the field \<open>f\<close> of the query at the
  reference \<open>query\<close> passes a fresh copy \<open>u\<close>: the store has grown by the one object \<open>u\<close>
  and every object it had is as it was, the one in \<open>query\<close> among them; \<^verbatim>\<open>onChange\<close> was
  called once, with the reference of the new object, which is not \<open>query\<close>, and the object
  it then read there is \<open>u\<close>; and \<open>u\<close> agrees with the input query on every field but \<open>f\<close>.
\<close>

definition passesFreshCopy ::
  "queryField \<Rightarrow> nat \<Rightarrow> 'r LokiQuery \<Rightarrow>
   ('app, 'r) ObjectState \<Rightarrow> ('app, 'r) ObjectState \<Rightarrow> bool" where
  "passesFreshCopy f query u w w' =
     (objects w' = objects w @ [u] \<and>
      objects w' ! query = objects w ! query \<and>
      passedSince w w' = [length (objects w)] \<and>
      query \<notin> set (passedSince w w') \<and>
      onChangeArgs (callsMade (panel w) (panel w')) = [u] \<and>
      agreeExcept f (objects w ! query) u)"

text \<open>A run that leaves the store as it was and does not call \<^verbatim>\<open>onChange\<close>.\<close>

definition makesNoUpdate :: "('app, 'r) ObjectState \<Rightarrow> ('app, 'r) ObjectState \<Rightarrow> bool" where
  "makesNoUpdate w w' =
     (objects w' = objects w \<and> passedSince w w' = [] \<and>
      onChangeArgs (callsMade (panel w) (panel w')) = [])"

subsection \<open>Sample inputs\<close>

text \<open>A query with every field unset.\<close>

definition emptyQuery :: "unit LokiQuery" where
  "emptyQuery =
     \<lparr>legendFormat = None, queryType = None, instant = None, maxLines = None, step = None,
      resolution = None, splitDuration = None, otherFields = ()\<rparr>"

text \<open>
  Sample catalogs for the two parameters of \<open>getCollapsedInfo\<close>: the two query types, and
  the resolutions from \<open>1/1\<close> to \<open>1/10\<close> that the tooltip of the resolution field names.
\<close>

definition sampleQueryTypeOptions :: "LokiQueryType SelectableValue list" where
  "sampleQueryTypeOptions =
     [\<lparr>sv_value = Some Range_type, sv_label = Some ''Range''\<rparr>,
      \<lparr>sv_value = Some Instant_type, sv_label = Some ''Instant''\<rparr>]"

definition sampleResolutionOptions :: "int SelectableValue list" where
  "sampleResolutionOptions =
     [\<lparr>sv_value = Some 1, sv_label = Some ''1/1''\<rparr>,
      \<lparr>sv_value = Some 2, sv_label = Some ''1/2''\<rparr>,
      \<lparr>sv_value = Some 3, sv_label = Some ''1/3''\<rparr>,
      \<lparr>sv_value = Some 4, sv_label = Some ''1/4''\<rparr>,
      \<lparr>sv_value = Some 5, sv_label = Some ''1/5''\<rparr>,
      \<lparr>sv_value = Some 10, sv_label = Some ''1/10''\<rparr>]"

text \<open>
  A sample for the parameter \<open>isValidDuration\<close>: one or more decimal digits and a unit letter.
\<close>

definition sampleIsValidDuration :: "string \<Rightarrow> bool" where
  "sampleIsValidDuration v =
     (case rev v of
        [] \<Rightarrow> False
      | u # ds \<Rightarrow>
          ds \<noteq> [] \<and> list_all (\<lambda>c. c \<in> set ''0123456789'') ds \<and> u \<in> set ''smhdwMy'')"

text \<open>A sample for the parameter \<open>preprocessMaxLines\<close>, given on three inputs.\<close>

definition samplePreprocessMaxLines :: "string \<Rightarrow> int option" where
  "samplePreprocessMaxLines = map_of [(''0'', 0), (''5'', 5), (''10'', 10)]"

text \<open>
  A query with every field set, none to its default, and a store that holds two objects,
  the second of them this query.
\<close>

definition sampleQuery :: "string LokiQuery" where
  "sampleQuery =
     \<lparr>legendFormat = Some ''{{job}}'', queryType = Some Instant_type, instant = Some True,
      maxLines = Some 20, step = Some ''5m'', resolution = Some 2,
      splitDuration = Some ''1d'', otherFields = ''refId A''\<rparr>"

definition sampleObjectState :: "(string, string) ObjectState" where
  "sampleObjectState =
     \<lparr>objects = [sampleQuery\<lparr>legendFormat := None, otherFields := ''refId B''\<rparr>, sampleQuery],
      passedRefs = [], panel = initialState\<rparr>"

section \<open>Properties\<close>

subsection \<open>Auxiliary facts\<close>

lemma calls_simps:
  "calls (onChange u st) = calls st @ [OnChange u]"
  "calls (onRunQuery st) = calls st @ [OnRunQuery]"
  "calls (reportInteraction n a r st) = calls st @ [ReportInteraction n a r]"
  "calls (setSplitDurationValid b st) = calls st"
  by (simp_all add: onChange_def onRunQuery_def reportInteraction_def setSplitDurationValid_def)

lemma splitDurationValid_simps:
  "splitDurationValid (onChange u st) = splitDurationValid st"
  "splitDurationValid (onRunQuery st) = splitDurationValid st"
  "splitDurationValid (reportInteraction n a r st) = splitDurationValid st"
  "splitDurationValid (setSplitDurationValid b st) = b"
  by (simp_all add: onChange_def onRunQuery_def reportInteraction_def setSplitDurationValid_def)

text \<open>The summary as the concatenation of its segments.\<close>

lemma getCollapsedInfo_items:
  "getCollapsedInfo qto ro q t ml isLog =
     (case legendFormat q of None \<Rightarrow> [] | Some l \<Rightarrow> if l = [] then [] else [''Legend: '' @ l])
     @ (case resolution q of
          None \<Rightarrow> []
        | Some r \<Rightarrow>
            if r = 0 then []
            else [''Resolution: '' @
                  template_string (label_of (find (\<lambda>x. sv_value x = Some r) ro))])
     @ [''Type: '' @ template_string (label_of (find (\<lambda>x. sv_value x = Some t) qto))]
     @ (if isLog
        then [''Line limit: '' @
              template_number (case maxLines q of None \<Rightarrow> ml | Some n \<Rightarrow> n)]
        else (case step q of None \<Rightarrow> [] | Some s \<Rightarrow> if s = [] then [] else [''Step: '' @ s])
             @ (case resolution q of
                  None \<Rightarrow> []
                | Some r \<Rightarrow>
                    if r = 0 then []
                    else [''Resolution: '' @
                          template_string (label_of (find (\<lambda>x. sv_value x = Some r) ro))]))"
  by (simp add: getCollapsedInfo_def push_def nullish_def truthy_string_def
      truthy_number_def template_string_def Let_def split: option.split)

subsection \<open>Query type\<close>

text \<open>
  C3. When \<^verbatim>\<open>queryType\<close> is unset and \<^verbatim>\<open>instant\<close> is true, the resolved query type is
  Instant; when \<^verbatim>\<open>queryType\<close> is unset and \<^verbatim>\<open>instant\<close> is false or absent, it is Range; and
  when \<^verbatim>\<open>queryType\<close> is set, the resolved type is that value, whatever \<^verbatim>\<open>instant\<close> is.
\<close>

theorem resolvedQueryType_precedence:
  "(queryType q = None \<and> instant q = Some True \<longrightarrow> resolvedQueryType q = Instant_type) \<and>
   (queryType q = None \<and> (instant q = Some False \<or> instant q = None)
      \<longrightarrow> resolvedQueryType q = Range_type) \<and>
   (queryType q = Some t \<longrightarrow> resolvedQueryType q = t)"
  by (auto simp: resolvedQueryType_def nullish_def truthy_bool_def)

theorem resolvedQueryType_precedence_witness:
  "resolvedQueryType (emptyQuery\<lparr>instant := Some True\<rparr>) = Instant_type \<and>
   resolvedQueryType (emptyQuery\<lparr>instant := Some False\<rparr>) = Range_type \<and>
   resolvedQueryType emptyQuery = Range_type \<and>
   resolvedQueryType (emptyQuery\<lparr>queryType := Some Range_type, instant := Some True\<rparr>)
     = Range_type"
  using resolvedQueryType_precedence [where q = "emptyQuery\<lparr>instant := Some True\<rparr>"]
        resolvedQueryType_precedence [where q = "emptyQuery\<lparr>instant := Some False\<rparr>"]
        resolvedQueryType_precedence [where q = emptyQuery]
        resolvedQueryType_precedence
          [where q = "emptyQuery\<lparr>queryType := Some Range_type, instant := Some True\<rparr>"
             and t = Range_type]
  by (simp add: emptyQuery_def)

subsection \<open>The summary\<close>

text \<open>
  C1. For every query, resolved query type, fallback line limit and log-query flag, the
  summary is, in this order: a legend entry (present only if \<^verbatim>\<open>legendFormat\<close> is set, and then
  not empty), a resolution-label entry (present only if \<^verbatim>\<open>resolution\<close> is set, and then not
  0), the query-type entry (always), then for a log query the line-limit entry with the
  query's \<^verbatim>\<open>maxLines\<close> or else the fallback, and for any other query a step entry (present
  only if \<^verbatim>\<open>step\<close> is set, and then not empty) followed by the resolution-label entry once
  more (under the same condition as before). There is no other entry, and exactly one entry
  is a query-type entry.
\<close>

theorem getCollapsedInfo_order:
  "getCollapsedInfo qto ro q t ml isLog =
     (let legend =
            (case legendFormat q of
               None \<Rightarrow> []
             | Some l \<Rightarrow> if l = [] then [] else [''Legend: '' @ l]);
          resolutionLabel =
            (case resolution q of
               None \<Rightarrow> []
             | Some r \<Rightarrow>
                 if r = 0 then []
                 else [''Resolution: '' @
                       template_string (label_of (find (\<lambda>x. sv_value x = Some r) ro))]);
          typeLabel =
            [''Type: '' @ template_string (label_of (find (\<lambda>x. sv_value x = Some t) qto))];
          lineLimit =
            [''Line limit: '' @
             template_number (case maxLines q of None \<Rightarrow> ml | Some n \<Rightarrow> n)];
          stepEntry =
            (case step q of
               None \<Rightarrow> []
             | Some s \<Rightarrow> if s = [] then [] else [''Step: '' @ s])
      in legend @ resolutionLabel @ typeLabel @
         (if isLog then lineLimit else stepEntry @ resolutionLabel)) \<and>
   length (filter (\<lambda>s. take 6 s = ''Type: '') (getCollapsedInfo qto ro q t ml isLog)) = 1"
  by (simp add: getCollapsedInfo_items Let_def split: option.split)

theorem getCollapsedInfo_order_witness:
  "getCollapsedInfo sampleQueryTypeOptions sampleResolutionOptions
     (emptyQuery\<lparr>legendFormat := Some ''{{job}}'', resolution := Some 5, maxLines := None,
        step := Some ''5m''\<rparr>) Instant_type 1000 False =
     [''Legend: {{job}}'', ''Resolution: 1/5'', ''Type: Instant'', ''Step: 5m'',
      ''Resolution: 1/5''] \<and>
   getCollapsedInfo sampleQueryTypeOptions sampleResolutionOptions
     (emptyQuery\<lparr>legendFormat := None, resolution := None, maxLines := None,
        step := None\<rparr>) Range_type 1000 False =
     [''Type: Range''] \<and>
   getCollapsedInfo sampleQueryTypeOptions sampleResolutionOptions
     (emptyQuery\<lparr>legendFormat := Some ''{{job}}'', resolution := Some 5, maxLines := Some 20,
        step := Some ''5m''\<rparr>) Instant_type 1000 True =
     [''Legend: {{job}}'', ''Resolution: 1/5'', ''Type: Instant'', ''Line limit: 20'']"
  using getCollapsedInfo_order
          [where qto = sampleQueryTypeOptions and ro = sampleResolutionOptions
             and q = "emptyQuery\<lparr>legendFormat := Some ''{{job}}'', resolution := Some 5,
                        maxLines := None, step := Some ''5m''\<rparr>"
             and t = Instant_type and ml = 1000 and isLog = False]
        getCollapsedInfo_order
          [where qto = sampleQueryTypeOptions and ro = sampleResolutionOptions
             and q = "emptyQuery\<lparr>legendFormat := None, resolution := None,
                        maxLines := None, step := None\<rparr>"
             and t = Range_type and ml = 1000 and isLog = False]
        getCollapsedInfo_order
          [where qto = sampleQueryTypeOptions and ro = sampleResolutionOptions
             and q = "emptyQuery\<lparr>legendFormat := Some ''{{job}}'', resolution := Some 5,
                        maxLines := Some 20, step := Some ''5m''\<rparr>"
             and t = Instant_type and ml = 1000 and isLog = True]
  by (simp add: emptyQuery_def sampleQueryTypeOptions_def sampleResolutionOptions_def
      label_of_def template_string_def template_number_def digits.simps)

text \<open>
  C4. For a query with \<^verbatim>\<open>resolution\<close> 2, when the catalog entry found for the value 2 has the
  label \<open>1/2\<close>, the summary has exactly two entries equal to \<open>Resolution: 1/2\<close> if the
  log-query flag is false, and exactly one if it is true.
\<close>

theorem resolution_label_occurrences:
  assumes "resolution q = Some 2"
    and "find (\<lambda>x. sv_value x = Some 2) ro = Some e"
    and "sv_label e = Some ''1/2''"
  shows "count_list (getCollapsedInfo qto ro q t ml isLog) ''Resolution: 1/2'' =
           (if isLog then 1 else 2)"
  using assms
  by (simp add: getCollapsedInfo_items label_of_def template_string_def split: option.split)

theorem resolution_label_occurrences_witness:
  "resolution (emptyQuery\<lparr>resolution := Some 2\<rparr>) = Some 2 \<and>
   find (\<lambda>x. sv_value x = Some 2) sampleResolutionOptions =
     Some \<lparr>sv_value = Some 2, sv_label = Some ''1/2''\<rparr> \<and>
   count_list
     (getCollapsedInfo sampleQueryTypeOptions sampleResolutionOptions
        (emptyQuery\<lparr>resolution := Some 2\<rparr>) Range_type 1000 False)
     ''Resolution: 1/2'' = 2 \<and>
   count_list
     (getCollapsedInfo sampleQueryTypeOptions sampleResolutionOptions
        (emptyQuery\<lparr>resolution := Some 2\<rparr>) Range_type 1000 True)
     ''Resolution: 1/2'' = 1"
proof -
  have r: "resolution (emptyQuery\<lparr>resolution := Some 2\<rparr>) = Some 2"
    by simp
  have f: "find (\<lambda>x. sv_value x = Some 2) sampleResolutionOptions =
             Some \<lparr>sv_value = Some 2, sv_label = Some ''1/2''\<rparr>"
    by (simp add: sampleResolutionOptions_def)
  have l: "sv_label \<lparr>sv_value = Some (2::int), sv_label = Some ''1/2''\<rparr> = Some ''1/2''"
    by simp
  show ?thesis
    using r f
      resolution_label_occurrences [OF r f l, where qto = sampleQueryTypeOptions
        and t = Range_type and ml = 1000 and isLog = False]
      resolution_label_occurrences [OF r f l, where qto = sampleQueryTypeOptions
        and t = Range_type and ml = 1000 and isLog = True]
    by simp
qed

text \<open>
  C5, as the spec states it: the resolution-label entry that precedes the query-type entry
  is absent when \<^verbatim>\<open>resolution\<close> is set to the default 1. The code tests
  \<^verbatim>\<open>if (query.resolution)\<close>, and 1 is truthy: for a log query with \<^verbatim>\<open>resolution\<close> 1 the
  summary starts with \<open>Resolution: 1/1\<close>.
\<close>

theorem default_resolution_counterexample:
  "getCollapsedInfo sampleQueryTypeOptions sampleResolutionOptions
     (emptyQuery\<lparr>resolution := Some 1\<rparr>) Range_type 1000 True =
     [''Resolution: 1/1'', ''Type: Range'', ''Line limit: 1000'']"
  by (simp add: getCollapsedInfo_items emptyQuery_def sampleQueryTypeOptions_def
      sampleResolutionOptions_def label_of_def template_string_def template_number_def
      digits.simps)

text \<open>
  C5, amended. Among the entries that precede the query-type entry there is a
  resolution-label entry exactly when \<^verbatim>\<open>resolution\<close> is set and is not 0, the default 1
  included; it is then the only one, and it carries the label that the catalog has for that
  value. When \<^verbatim>\<open>resolution\<close> is unset or 0 there is none.
\<close>

theorem generic_resolution_entry:
  "filter (\<lambda>s. take 12 s = ''Resolution: '')
      (takeWhile (\<lambda>s. take 6 s \<noteq> ''Type: '') (getCollapsedInfo qto ro q t ml isLog)) =
     (case resolution q of
        None \<Rightarrow> []
      | Some r \<Rightarrow>
          if r = 0 then []
          else [''Resolution: '' @
                template_string (label_of (find (\<lambda>x. sv_value x = Some r) ro))])"
  by (simp add: getCollapsedInfo_items split: option.split)

text \<open>
  C7. For a log query with \<^verbatim>\<open>maxLines\<close> unset and the fallback 10, the summary has the entry
  \<open>Line limit: 10\<close>; for a log query with \<^verbatim>\<open>maxLines\<close> 5 it has \<open>Line limit: 5\<close>, whatever
  the fallback.
\<close>

theorem line_limit_entry:
  "(maxLines q = None \<longrightarrow>
      ''Line limit: 10'' \<in> set (getCollapsedInfo qto ro q t 10 True)) \<and>
   (maxLines q = Some 5 \<longrightarrow>
      ''Line limit: 5'' \<in> set (getCollapsedInfo qto ro q t ml True))"
  by (simp add: getCollapsedInfo_items template_number_def digits.simps)

theorem line_limit_entry_witness:
  "maxLines emptyQuery = None \<and>
   ''Line limit: 10'' \<in>
     set (getCollapsedInfo sampleQueryTypeOptions sampleResolutionOptions emptyQuery
            Range_type 10 True) \<and>
   maxLines (emptyQuery\<lparr>maxLines := Some 5\<rparr>) = Some 5 \<and>
   ''Line limit: 5'' \<in>
     set (getCollapsedInfo sampleQueryTypeOptions sampleResolutionOptions
            (emptyQuery\<lparr>maxLines := Some 5\<rparr>) Range_type 10 True)"
  using line_limit_entry
          [where q = emptyQuery and qto = sampleQueryTypeOptions
             and ro = sampleResolutionOptions and t = Range_type]
        line_limit_entry
          [where q = "emptyQuery\<lparr>maxLines := Some 5\<rparr>" and qto = sampleQueryTypeOptions
             and ro = sampleResolutionOptions and t = Range_type and ml = 10]
  by (simp add: emptyQuery_def)

text \<open>
  C10. For a log query the summary has exactly one line-limit entry; it shows the query's
  \<^verbatim>\<open>maxLines\<close> whenever that field is set, and the fallback only when it is unset. In
  particular, for \<^verbatim>\<open>maxLines\<close> 0 the entry reads \<open>Line limit: 0\<close>, whatever the fallback.
\<close>

theorem line_limit_zero:
  "filter (\<lambda>s. take 12 s = ''Line limit: '') (getCollapsedInfo qto ro q t ml True) =
     [''Line limit: '' @ template_number (case maxLines q of None \<Rightarrow> ml | Some n \<Rightarrow> n)] \<and>
   (maxLines q = Some 0 \<longrightarrow>
      filter (\<lambda>s. take 12 s = ''Line limit: '') (getCollapsedInfo qto ro q t ml True) =
        [''Line limit: 0''])"
  by (simp add: getCollapsedInfo_items template_number_def digits.simps split: option.split)

theorem line_limit_zero_witness:
  "maxLines (emptyQuery\<lparr>maxLines := Some 0\<rparr>) = Some 0 \<and>
   filter (\<lambda>s. take 12 s = ''Line limit: '')
     (getCollapsedInfo sampleQueryTypeOptions sampleResolutionOptions
        (emptyQuery\<lparr>maxLines := Some 0\<rparr>) Range_type 1000 True) =
     [''Line limit: 0'']"
  using line_limit_zero
          [where q = "emptyQuery\<lparr>maxLines := Some 0\<rparr>" and qto = sampleQueryTypeOptions
             and ro = sampleResolutionOptions and t = Range_type and ml = 1000]
  by (simp add: emptyQuery_def template_number_def digits.simps)

subsection \<open>The handlers\<close>

text \<open>
  C2. Committing a split-duration value that fails the duration check sets the flag to
  invalid (\<^verbatim>\<open>splitDurationValid\<close> becomes false) and calls neither \<^verbatim>\<open>onChange\<close> nor
  \<^verbatim>\<open>onRunQuery\<close>. Committing a value that passes the check sets the flag to valid, calls
  \<^verbatim>\<open>onChange\<close> with the query whose \<^verbatim>\<open>splitDuration\<close> is replaced by the value, and then
  calls \<^verbatim>\<open>onRunQuery\<close> once.
\<close>

theorem onChunkRangeChange_validation:
  "(\<not> isValidDuration v \<longrightarrow>
      splitDurationValid (onChunkRangeChange isValidDuration q v st) = False \<and>
      calls (onChunkRangeChange isValidDuration q v st) = calls st) \<and>
   (isValidDuration v \<longrightarrow>
      splitDurationValid (onChunkRangeChange isValidDuration q v st) = True \<and>
      calls (onChunkRangeChange isValidDuration q v st) =
        calls st @ [OnChange (q\<lparr>splitDuration := Some v\<rparr>), OnRunQuery])"
  by (simp add: onChunkRangeChange_def calls_simps splitDurationValid_simps)

theorem onChunkRangeChange_validation_witness:
  "\<not> sampleIsValidDuration ''two days'' \<and>
   splitDurationValid
     (onChunkRangeChange sampleIsValidDuration emptyQuery ''two days''
        (initialState :: (string, unit) PanelState)) = False \<and>
   calls
     (onChunkRangeChange sampleIsValidDuration emptyQuery ''two days''
        (initialState :: (string, unit) PanelState)) = [] \<and>
   sampleIsValidDuration ''2d'' \<and>
   calls
     (onChunkRangeChange sampleIsValidDuration emptyQuery ''2d''
        (initialState :: (string, unit) PanelState)) =
     [OnChange (emptyQuery\<lparr>splitDuration := Some ''2d''\<rparr>), OnRunQuery]"
  using onChunkRangeChange_validation
          [where isValidDuration = sampleIsValidDuration and v = "''two days''"
             and q = emptyQuery and st = "initialState :: (string, unit) PanelState"]
        onChunkRangeChange_validation
          [where isValidDuration = sampleIsValidDuration and v = "''2d''"
             and q = emptyQuery and st = "initialState :: (string, unit) PanelState"]
  by (simp add: sampleIsValidDuration_def initialState_def)

text \<open>
  C8. Changing the resolution makes three calls, in this order: \<^verbatim>\<open>reportInteraction\<close>, once,
  with the selected value and the panel's \<^verbatim>\<open>app\<close>; \<^verbatim>\<open>onChange\<close> with the query whose
  \<^verbatim>\<open>resolution\<close> is replaced by the selected value; \<^verbatim>\<open>onRunQuery\<close>.
\<close>

theorem onResolutionChange_calls:
  "calls (onResolutionChange app q opt st) =
     calls st @
       [ReportInteraction ''grafana_loki_resolution_clicked'' app (sv_value opt),
        OnChange (q\<lparr>resolution := sv_value opt\<rparr>),
        OnRunQuery]"
  by (simp add: onResolutionChange_def calls_simps)

text \<open>
  C6, as the spec states it: committing any value to the line-limit field calls
  \<^verbatim>\<open>onChange\<close> and then \<^verbatim>\<open>onRunQuery\<close>. The handler has the guard
  \<^verbatim>\<open>if (query.maxLines !== newMaxLines)\<close>: committing 5 to a query whose \<^verbatim>\<open>maxLines\<close> is
  already 5 makes no call.
\<close>

theorem maxLines_guard_counterexample:
  "calls
     (onMaxLinesChange samplePreprocessMaxLines (emptyQuery\<lparr>maxLines := Some 5\<rparr>) ''5''
        (initialState :: (string, unit) PanelState)) = []"
  by (simp add: onMaxLinesChange_def samplePreprocessMaxLines_def emptyQuery_def
      initialState_def)

text \<open>
  C6, amended. Committing a value to the legend, query-type or step field calls
  \<^verbatim>\<open>onChange\<close> with the edited query and then \<^verbatim>\<open>onRunQuery\<close>, whatever the value; so does
  changing the resolution, after the call of \<^verbatim>\<open>reportInteraction\<close>. Committing a value to
  the line-limit field makes the same two calls when the preprocessed value differs from the
  query's \<^verbatim>\<open>maxLines\<close>, and no call when it is equal.
\<close>

theorem field_commit_propagation:
  "calls (onLegendFormatChanged q v st) =
     calls st @ [OnChange (q\<lparr>legendFormat := Some v\<rparr>), OnRunQuery] \<and>
   calls (onQueryTypeChange q t st) =
     calls st @ [OnChange (q\<lparr>queryType := Some t\<rparr>), OnRunQuery] \<and>
   calls (onStepChange trim q v st) =
     calls st @ [OnChange (q\<lparr>step := Some (trim v)\<rparr>), OnRunQuery] \<and>
   calls (onResolutionChange app q opt st) =
     calls st @
       [ReportInteraction ''grafana_loki_resolution_clicked'' app (sv_value opt),
        OnChange (q\<lparr>resolution := sv_value opt\<rparr>), OnRunQuery] \<and>
   calls (onMaxLinesChange preprocessMaxLines q v st) =
     calls st @
       (if maxLines q = preprocessMaxLines v then []
        else [OnChange (q\<lparr>maxLines := preprocessMaxLines v\<rparr>), OnRunQuery])"
  by (simp add: onLegendFormatChanged_def onQueryTypeChange_def onStepChange_def
      onResolutionChange_def onMaxLinesChange_def calls_simps)

text \<open>
  C9. Let the prop \<^verbatim>\<open>query\<close> refer to an allocated object. Every field-edit handler, when
  it calls \<^verbatim>\<open>onChange\<close>, calls it exactly once, with a newly allocated record that has the
  new value in the edited field (\<^verbatim>\<open>legendFormat\<close>, \<^verbatim>\<open>queryType\<close>, \<^verbatim>\<open>resolution\<close>,
  \<^verbatim>\<open>splitDuration\<close>, \<^verbatim>\<open>maxLines\<close> or \<^verbatim>\<open>step\<close>) and agrees with the input query on every other
  field. The legend, query-type, resolution and step handlers always do so; the
  split-duration handler does so for a valid value and the line-limit handler for a value
  that differs from the current one, and otherwise they make no update. No handler changes
  the input query or any other object of the store. The flag and the calls are those of the
  handlers on query values.
\<close>

theorem handlers_replace_one_field:
  assumes "query < length (objects w)"
  shows
    "passesFreshCopy F_legendFormat query ((objects w ! query)\<lparr>legendFormat := Some v\<rparr>)
       w (onLegendFormatChanged_ref query v w) \<and>
     passesFreshCopy F_queryType query ((objects w ! query)\<lparr>queryType := Some t\<rparr>)
       w (onQueryTypeChange_ref query t w) \<and>
     passesFreshCopy F_resolution query ((objects w ! query)\<lparr>resolution := sv_value opt\<rparr>)
       w (onResolutionChange_ref app query opt w) \<and>
     passesFreshCopy F_step query ((objects w ! query)\<lparr>step := Some (trim v)\<rparr>)
       w (onStepChange_ref trim query v w) \<and>
     (if isValidDuration v
      then passesFreshCopy F_splitDuration query
             ((objects w ! query)\<lparr>splitDuration := Some v\<rparr>)
             w (onChunkRangeChange_ref isValidDuration query v w)
      else makesNoUpdate w (onChunkRangeChange_ref isValidDuration query v w)) \<and>
     (if maxLines (objects w ! query) = preprocessMaxLines v
      then makesNoUpdate w (onMaxLinesChange_ref preprocessMaxLines query v w)
      else passesFreshCopy F_maxLines query
             ((objects w ! query)\<lparr>maxLines := preprocessMaxLines v\<rparr>)
             w (onMaxLinesChange_ref preprocessMaxLines query v w)) \<and>
     panel (onLegendFormatChanged_ref query v w) =
       onLegendFormatChanged (objects w ! query) v (panel w) \<and>
     panel (onQueryTypeChange_ref query t w) =
       onQueryTypeChange (objects w ! query) t (panel w) \<and>
     panel (onResolutionChange_ref app query opt w) =
       onResolutionChange app (objects w ! query) opt (panel w) \<and>
     panel (onStepChange_ref trim query v w) =
       onStepChange trim (objects w ! query) v (panel w) \<and>
     panel (onChunkRangeChange_ref isValidDuration query v w) =
       onChunkRangeChange isValidDuration (objects w ! query) v (panel w) \<and>
     panel (onMaxLinesChange_ref preprocessMaxLines query v w) =
       onMaxLinesChange preprocessMaxLines (objects w ! query) v (panel w)"
proof -
  have fresh: "(objects w @ [u]) ! query = objects w ! query" for u
    using assms by (simp add: nth_append)
  have other: "query \<noteq> length (objects w)"
    using assms by simp
  show ?thesis
    using fresh other
    by (simp add: passesFreshCopy_def makesNoUpdate_def passedSince_def callsMade_def
        agreeExcept_def spread_def onChange_ref_def onRunQuery_ref_def
        reportInteraction_ref_def setSplitDurationValid_ref_def
        onLegendFormatChanged_ref_def onQueryTypeChange_ref_def onResolutionChange_ref_def
        onStepChange_ref_def onChunkRangeChange_ref_def onMaxLinesChange_ref_def
        onLegendFormatChanged_def onQueryTypeChange_def onResolutionChange_def
        onStepChange_def onChunkRangeChange_def onMaxLinesChange_def
        calls_simps Let_def)
qed

theorem handlers_replace_one_field_witness:
  "1 < length (objects sampleObjectState) \<and>
   objects sampleObjectState ! 1 = sampleQuery \<and>
   objects (onLegendFormatChanged_ref 1 ''2d'' sampleObjectState) =
     objects sampleObjectState @ [sampleQuery\<lparr>legendFormat := Some ''2d''\<rparr>] \<and>
   passedRefs (onLegendFormatChanged_ref 1 ''2d'' sampleObjectState) = [2] \<and>
   calls (panel (onLegendFormatChanged_ref 1 ''2d'' sampleObjectState)) =
     [OnChange (sampleQuery\<lparr>legendFormat := Some ''2d''\<rparr>), OnRunQuery] \<and>
   objects (onChunkRangeChange_ref sampleIsValidDuration 1 ''2d'' sampleObjectState) =
     objects sampleObjectState @ [sampleQuery\<lparr>splitDuration := Some ''2d''\<rparr>] \<and>
   passedRefs (onChunkRangeChange_ref sampleIsValidDuration 1 ''2d'' sampleObjectState) = [2] \<and>
   objects (onMaxLinesChange_ref samplePreprocessMaxLines 1 ''2d'' sampleObjectState) =
     objects sampleObjectState @ [sampleQuery\<lparr>maxLines := None\<rparr>] \<and>
   passedRefs (onMaxLinesChange_ref samplePreprocessMaxLines 1 ''2d'' sampleObjectState) = [2] \<and>
   agreeExcept F_maxLines sampleQuery (sampleQuery\<lparr>maxLines := None\<rparr>) \<and>
   objects (onQueryTypeChange_ref 1 Range_type sampleObjectState) =
     objects sampleObjectState @ [sampleQuery\<lparr>queryType := Some Range_type\<rparr>] \<and>
   objects
     (onResolutionChange_ref (Some ''explore'') 1 \<lparr>sv_value = Some 10, sv_label = Some ''1/10''\<rparr>
        sampleObjectState) =
     objects sampleObjectState @ [sampleQuery\<lparr>resolution := Some 10\<rparr>] \<and>
   objects (onStepChange_ref (\<lambda>s. s) 1 ''2d'' sampleObjectState) =
     objects sampleObjectState @ [sampleQuery\<lparr>step := Some ''2d''\<rparr>]"
proof -
  have h: "1 < length (objects sampleObjectState)"
    by (simp add: sampleObjectState_def)
  have q: "objects sampleObjectState ! 1 = sampleQuery"
    by (simp add: sampleObjectState_def)
  have v: "sampleIsValidDuration ''2d''"
    by (simp add: sampleIsValidDuration_def)
  have m: "samplePreprocessMaxLines ''2d'' = None" "maxLines sampleQuery = Some 20"
    by (simp_all add: samplePreprocessMaxLines_def sampleQuery_def)
  have p: "passedRefs sampleObjectState = []" "calls (panel sampleObjectState) = []"
    "length (objects sampleObjectState) = 2"
    by (simp_all add: sampleObjectState_def initialState_def)
  show ?thesis
    using h q
      handlers_replace_one_field
        [OF h, where v = "''2d''" and t = Range_type and app = "Some ''explore''"
           and opt = "\<lparr>sv_value = Some 10, sv_label = Some ''1/10''\<rparr>"
           and trim = "\<lambda>s. s" and isValidDuration = sampleIsValidDuration
           and preprocessMaxLines = samplePreprocessMaxLines]
    by (simp add: q v m p passesFreshCopy_def passedSince_def agreeExcept_def
        onLegendFormatChanged_def calls_simps)
qed

end
